theory Spec2Isabelle
  imports Complex_Main "HOL-Library.Sublist"
begin

section \<open>Data model\<close>

text \<open>
  The exceptions of the Python source that the model distinguishes. An exception that
  leaves a function is the value \<open>Inl e\<close> of its result.
\<close>

datatype exn = TypeError | ValueError | OverflowError | OSError | OtherError

text \<open>
  \<^verbatim>\<open>fetcher.py\<close>, lines 98-115: the dataclass \<^verbatim>\<open>Article\<close>. The field \<^verbatim>\<open>id\<close> is named
  \<open>id_key\<close> here (\<open>id\<close> is the identity function of HOL). Python's \<^verbatim>\<open>float\<close> score is a
  \<open>real\<close>: the scores the crawler produces are finite, and only their order is used.
\<close>

record Article =
  id_key :: string
  source_name :: string
  source_logo :: string
  original_title :: string
  original_description :: string
  url :: string
  image_url :: string
  published_at :: string
  category :: string
  tags :: "string list"
  popularity_score :: real
  comment_count :: int
  rewritten_title :: string
  rewritten_description :: string
  status :: string

text \<open>
  The scheduler and the API work on the JSON form of an article: a dict with the keys of
  the dataclass and, once published, the two keys \<^verbatim>\<open>published_at_archyards\<close> and
  \<^verbatim>\<open>badge\<close> that \<^verbatim>\<open>mark_as_published\<close> sets. \<open>None\<close> is an absent key. The keys of
  the dataclass are always there (the files are written by \<^verbatim>\<open>save_articles\<close> and by the
  pipeline itself), so a lookup such as \<^verbatim>\<open>a["id"]\<close> does not fail.
\<close>

record Published = Article +
  published_at_archyards :: "string option"
  badge :: "string option"

section \<open>scheduler.py: merge with the published store\<close>

text \<open>
  \<^verbatim>\<open>merge_with_published\<close>, lines 59-77. The published file is read when it exists
  (\<open>Some existing\<close>) and stands for the empty list otherwise (\<open>None\<close>).
\<close>

definition load_existing :: "Published list option \<Rightarrow> Published list" where
  "load_existing pub_file = (case pub_file of None \<Rightarrow> [] | Some existing \<Rightarrow> existing)"

definition truly_new :: "Published list \<Rightarrow> Published list \<Rightarrow> Published list" where
  "truly_new existing new_articles =
     (let existing_ids = set (map id_key existing)
      in filter (\<lambda>a. id_key a \<notin> existing_ids) new_articles)"

definition merge_with_published :: "Published list option \<Rightarrow> Published list \<Rightarrow> Published list" where
  "merge_with_published pub_file new_articles =
     (let existing = load_existing pub_file;
          merged = truly_new existing new_articles @ existing
      in take 150 merged)"

section \<open>fetcher.py: the selection engine\<close>

text \<open>
  \<^verbatim>\<open>crawl_all\<close>, lines 313-318: every source is crawled inside \<^verbatim>\<open>try\<close>; a source whose
  crawl raises is logged and contributes nothing. The argument is what \<^verbatim>\<open>crawl_source\<close>
  did for each entry of \<^verbatim>\<open>SOURCES\<close>, in order.
\<close>

fun collect_sources :: "(exn + Article list) list \<Rightarrow> Article list" where
  "collect_sources [] = []"
| "collect_sources (Inr articles # rest) = articles @ collect_sources rest"
| "collect_sources (Inl e # rest) = collect_sources rest"

text \<open>Lines 320-326: the first article of every id, in the order of first appearance.\<close>

fun dedupe_loop :: "Article list \<Rightarrow> string set \<Rightarrow> Article list \<Rightarrow> Article list" where
  "dedupe_loop [] seen unique = unique"
| "dedupe_loop (a # rest) seen unique =
     (if id_key a \<notin> seen then dedupe_loop rest (insert (id_key a) seen) (unique @ [a])
      else dedupe_loop rest seen unique)"

text \<open>
  Line 329: \<^verbatim>\<open>unique.sort(key=lambda a: a.popularity_score, reverse=True)\<close>. Python's sort
  is stable, also with \<^verbatim>\<open>reverse=True\<close>: articles of equal score keep their order. That is
  the stable ascending sort on the negated score.
\<close>

definition sort_by_score :: "Article list \<Rightarrow> Article list" where
  "sort_by_score unique = sort_key (\<lambda>a. - popularity_score a) unique"

text \<open>
  Lines 332-340: the greedy fill. \<^verbatim>\<open>top_n\<close> is a Python \<^verbatim>\<open>int\<close>, \<^verbatim>\<open>source_count\<close> a dict
  read with \<^verbatim>\<open>get(name, 0)\<close>.
\<close>

fun select_loop :: "int \<Rightarrow> Article list \<Rightarrow> Article list \<Rightarrow> (string \<rightharpoonup> int) \<Rightarrow> Article list" where
  "select_loop top_n [] selected source_count = selected"
| "select_loop top_n (art # rest) selected source_count =
     (if int (length selected) \<ge> top_n then selected
      else
        let count = (case source_count (source_name art) of None \<Rightarrow> 0 | Some c \<Rightarrow> c)
        in if count < 2
           then select_loop top_n rest (selected @ [art])
                  (source_count(source_name art \<mapsto> count + 1))
           else select_loop top_n rest selected source_count)"

definition crawl_all :: "(exn + Article list) list \<Rightarrow> int \<Rightarrow> Article list" where
  "crawl_all crawled top_n =
     (let all_articles = collect_sources crawled;
          unique = dedupe_loop all_articles {} [];
          ranked = sort_by_score unique
      in select_loop top_n ranked [] Map.empty)"

text \<open>
  \<^verbatim>\<open>save_articles\<close> writes \<^verbatim>\<open>asdict(a)\<close> for every article: the JSON form, without the
  two publication keys.
\<close>

definition asdict :: "Article \<Rightarrow> Published" where
  "asdict a =
     \<lparr>id_key = id_key a, source_name = source_name a, source_logo = source_logo a,
      original_title = original_title a, original_description = original_description a,
      url = url a, image_url = image_url a, published_at = published_at a,
      category = category a, tags = tags a, popularity_score = popularity_score a,
      comment_count = comment_count a, rewritten_title = rewritten_title a,
      rewritten_description = rewritten_description a, status = status a,
      published_at_archyards = None, badge = None\<rparr>"

section \<open>rewriter.py: the rewrite adapter\<close>

text \<open>
  What the text-generation service did for one article: a JSON object, whose two keys may
  each be absent; a response that is not JSON (\<^verbatim>\<open>json.JSONDecodeError\<close>); an
  \<^verbatim>\<open>anthropic.APIError\<close>; or an exception that \<^verbatim>\<open>rewrite\<close> does not catch.
\<close>

datatype reply = Reply "string option" "string option" | BadJSON | APIFailure | Raises exn

text \<open>\<^verbatim>\<open>ArticleRewriter.rewrite\<close>, lines 70-113.\<close>

definition rewrite :: "(Published \<Rightarrow> reply) \<Rightarrow> Published \<Rightarrow> exn + Published" where
  "rewrite service article =
     (case service article of
        Reply t d \<Rightarrow>
          Inr (article\<lparr>rewritten_title :=
                          (case t of None \<Rightarrow> original_title article | Some t' \<Rightarrow> t'),
                        rewritten_description :=
                          (case d of None \<Rightarrow> original_description article | Some d' \<Rightarrow> d'),
                        status := ''rewritten''\<rparr>)
      | BadJSON \<Rightarrow> Inr (article\<lparr>status := ''rewrite_failed''\<rparr>)
      | APIFailure \<Rightarrow> Inr (article\<lparr>status := ''rewrite_failed''\<rparr>)
      | Raises e \<Rightarrow> Inl e)"

text \<open>\<^verbatim>\<open>rewrite_batch\<close>, lines 115-134; the delay between calls has no effect on the result.\<close>

fun rewrite_batch :: "(Published \<Rightarrow> reply) \<Rightarrow> Published list \<Rightarrow> exn + Published list" where
  "rewrite_batch service [] = Inr []"
| "rewrite_batch service (article # rest) =
     (if status article = ''rewritten''
      then (case rewrite_batch service rest of
              Inl e \<Rightarrow> Inl e
            | Inr results \<Rightarrow> Inr (article # results))
      else (case rewrite service article of
              Inl e \<Rightarrow> Inl e
            | Inr rewritten \<Rightarrow>
                (case rewrite_batch service rest of
                   Inl e \<Rightarrow> Inl e
                 | Inr results \<Rightarrow> Inr (rewritten # results))))"

section \<open>scheduler.py: the pipeline\<close>

text \<open>
  The files under \<^verbatim>\<open>storage/\<close>: \<open>None\<close> is a file that does not exist. The archive
  is \<open>None\<close> while the directory does not exist; the directory maps the date in a
  snapshot's name to the file. An archive file is a whole snapshot, or what a copy that
  was cut short left of it (an empty or partly written file).
\<close>

datatype archive_file = Snapshot "Published list" | Cut_short

record storage =
  raw_articles :: "Published list option"
  rewritten_articles :: "Published list option"
  published_articles :: "Published list option"
  archive :: "(string \<rightharpoonup> archive_file) option"

text \<open>
  How far \<^verbatim>\<open>shutil.copy\<close> got when it raised: \<^verbatim>\<open>copyfile\<close> opens the source, opens the
  destination for writing (which empties it), copies the content, and \<^verbatim>\<open>copymode\<close> then
  sets the permissions. It may raise before the destination is opened, while the content
  is copied, or after the content is complete.
\<close>

datatype copy_stage = Before_open | During_copy | After_copy

text \<open>
  What one run reads from outside the program: the API key of \<^verbatim>\<open>CONFIG\<close> (the environment
  variable), the UTC date and the timestamp of the run, whether \<^verbatim>\<open>mkdir\<close> of the archive
  directory raises, whether \<^verbatim>\<open>shutil.copy\<close> raises and how far it got, what the crawl of
  every source gave, and the text-generation service.
\<close>

record run_env =
  api_key :: "string option"
  date_str :: string
  now :: string
  mkdir_error :: "exn option"
  copy_error :: "(exn \<times> copy_stage) option"
  crawled :: "(exn + Article list) list"
  service :: "Published \<Rightarrow> reply"

text \<open>
  \<^verbatim>\<open>archive_previous\<close>, lines 46-56. No exception is caught: one raised by \<^verbatim>\<open>mkdir\<close> or by
  the copy leaves the function, with what was done until then left in the storage. The
  directory is made before the copy (\<^verbatim>\<open>parents=True, exist_ok=True\<close>: an existing one is
  kept as it is).
\<close>

definition archive_previous :: "run_env \<Rightarrow> storage \<Rightarrow> storage \<times> (exn + unit)" where
  "archive_previous env st =
     (case published_articles st of
        None \<Rightarrow> (st, Inr ())
      | Some pub \<Rightarrow>
          (case mkdir_error env of
             Some e \<Rightarrow> (st, Inl e)
           | None \<Rightarrow>
               (let dir = (case archive st of None \<Rightarrow> Map.empty | Some d \<Rightarrow> d);
                    dest = date_str env
                in case copy_error env of
                     None \<Rightarrow> (st\<lparr>archive := Some (dir(dest \<mapsto> Snapshot pub))\<rparr>, Inr ())
                   | Some (e, Before_open) \<Rightarrow> (st\<lparr>archive := Some dir\<rparr>, Inl e)
                   | Some (e, During_copy) \<Rightarrow>
                       (st\<lparr>archive := Some (dir(dest \<mapsto> Cut_short))\<rparr>, Inl e)
                   | Some (e, After_copy) \<Rightarrow>
                       (st\<lparr>archive := Some (dir(dest \<mapsto> Snapshot pub))\<rparr>, Inl e))))"

definition save_articles :: "Article list \<Rightarrow> storage \<Rightarrow> storage" where
  "save_articles articles st = st\<lparr>raw_articles := Some (map asdict articles)\<rparr>"

text \<open>
  \<^verbatim>\<open>mark_as_published\<close>, lines 80-87: every article of the list gets the timestamp of the
  call, the badge and the status \<^verbatim>\<open>published\<close>.
\<close>

definition stamp_article :: "string \<Rightarrow> Published \<Rightarrow> Published" where
  "stamp_article stamp a =
     a\<lparr>published_at_archyards := Some stamp, badge := Some ''aggregated'',
       status := ''published''\<rparr>"

definition mark_as_published :: "string \<Rightarrow> Published list \<Rightarrow> Published list" where
  "mark_as_published stamp articles = map (stamp_article stamp) articles"

text \<open>
  \<^verbatim>\<open>run_rewriter\<close>, rewriter.py lines 138-166: load the raw file, rewrite the batch, save
  and return it. Opening a file that does not exist raises.
\<close>

definition run_rewriter :: "run_env \<Rightarrow> storage \<Rightarrow> storage \<times> (exn + Published list)" where
  "run_rewriter env st =
     (case raw_articles st of
        None \<Rightarrow> (st, Inl OSError)
      | Some articles \<Rightarrow>
          (case rewrite_batch (service env) articles of
             Inl e \<Rightarrow> (st, Inl e)
           | Inr rewritten \<Rightarrow> (st\<lparr>rewritten_articles := Some rewritten\<rparr>, Inr rewritten)))"

text \<open>
  Lines 113-116, the branch without an API key: every article goes through
  \<^verbatim>\<open>json.loads(json.dumps(a.__dict__))\<close>, which is its JSON form, and then through
  \<^verbatim>\<open>dict(**a, status="pending")\<close>. In Python a call that gets the same keyword twice raises
  \<^verbatim>\<open>TypeError\<close>: that is so when the dict already has the key \<^verbatim>\<open>status\<close>. The keys of the
  JSON form are the fields of the dataclass, and the publication keys once they are set.
\<close>

definition dict_keys :: "Published \<Rightarrow> string list" where
  "dict_keys a =
     [''id'', ''source_name'', ''source_logo'', ''original_title'', ''original_description'',
      ''url'', ''image_url'', ''published_at'', ''category'', ''tags'', ''popularity_score'',
      ''comment_count'', ''rewritten_title'', ''rewritten_description'', ''status'']
     @ (case published_at_archyards a of None \<Rightarrow> [] | Some _ \<Rightarrow> [''published_at_archyards''])
     @ (case badge a of None \<Rightarrow> [] | Some _ \<Rightarrow> [''badge''])"

definition dict_with_status :: "Published \<Rightarrow> string \<Rightarrow> exn + Published" where
  "dict_with_status a v =
     (if ''status'' \<in> set (dict_keys a) then Inl TypeError else Inr (a\<lparr>status := v\<rparr>))"

fun pending_batch :: "Article list \<Rightarrow> exn + Published list" where
  "pending_batch [] = Inr []"
| "pending_batch (a # rest) =
     (case dict_with_status (asdict a) ''pending'' of
        Inl e \<Rightarrow> Inl e
      | Inr d \<Rightarrow> (case pending_batch rest of Inl e \<Rightarrow> Inl e | Inr ds \<Rightarrow> Inr (d # ds)))"

text \<open>Line 111: \<^verbatim>\<open>not CONFIG["api_key"]\<close> holds for \<^verbatim>\<open>None\<close> and for the empty string.\<close>

definition no_api_key :: "run_env \<Rightarrow> bool" where
  "no_api_key env = (case api_key env of None \<Rightarrow> True | Some k \<Rightarrow> k = [])"

text \<open>Line 126: the records that go on to publication.\<close>

definition eligible :: "Published \<Rightarrow> bool" where
  "eligible a = (status a = ''rewritten'' \<or> status a = ''pending'')"

text \<open>
  Lines 124-133, step 4 of \<^verbatim>\<open>run_pipeline\<close>: filter, stamp, merge, write the published
  file. The result is the new store and \<^verbatim>\<open>to_publish\<close>.
\<close>

definition publish_step :: "run_env \<Rightarrow> Published list \<Rightarrow> storage \<Rightarrow> storage \<times> Published list" where
  "publish_step env rewritten st =
     (let to_publish = mark_as_published (now env) (filter eligible rewritten);
          merged = merge_with_published (published_articles st) to_publish
      in (st\<lparr>published_articles := Some merged\<rparr>, to_publish))"

text \<open>
  \<^verbatim>\<open>run_pipeline\<close>, lines 90-146, with \<^verbatim>\<open>articles_per_day = 5\<close> of \<^verbatim>\<open>CONFIG\<close>. The result
  is the storage as the run leaves it and either the exception that ended the run or
  \<^verbatim>\<open>to_publish\<close>.
\<close>

definition run_pipeline :: "run_env \<Rightarrow> storage \<Rightarrow> storage \<times> (exn + Published list)" where
  "run_pipeline env st =
     (case archive_previous env st of
        (st1, Inl e) \<Rightarrow> (st1, Inl e)
      | (st1, Inr _) \<Rightarrow>
          (let articles = crawl_all (crawled env) 5;
               st2 = save_articles articles st1;
               (st3, outcome) =
                  (if no_api_key env then (st2, pending_batch articles)
                   else run_rewriter env st2)
           in case outcome of
                Inl e \<Rightarrow> (st3, Inl e)
              | Inr rewritten \<Rightarrow>
                  (let (st4, to_publish) = publish_step env rewritten st3
                   in (st4, Inr to_publish))))"

section \<open>Python built-ins used by the scoring function and the API\<close>

text \<open>
  A \<open>char\<close> stands for a code point below 256; text with other code points is outside
  the model.

  \<^verbatim>\<open>int(s)\<close> on a string: surrounding blanks are stripped, one sign is allowed, and the
  rest is decimal digits, where single underscores may stand between digits. Anything
  else raises \<^verbatim>\<open>ValueError\<close>, and so does a number of more than 4300 digits (the default
  limit of the interpreter). The blanks that \<^verbatim>\<open>int\<close> strips are tab, line feed, vertical
  tab, form feed, carriage return and space, and the code points 133 and 160; the
  separators 28 to 31 are not among them. The only decimal digits below 256 are
  \<open>0\<close> to \<open>9\<close>.
\<close>

definition is_digit :: "char \<Rightarrow> bool" where
  "is_digit c = (48 \<le> (of_char c :: nat) \<and> (of_char c :: nat) \<le> 57)"

definition is_space :: "char \<Rightarrow> bool" where
  "is_space c = ((of_char c :: nat) \<in> {9, 10, 11, 12, 13, 32, 133, 160})"

definition py_strip :: "string \<Rightarrow> string" where
  "py_strip s = rev (dropWhile is_space (rev (dropWhile is_space s)))"

fun valid_digits :: "string \<Rightarrow> bool" where
  "valid_digits [] = False"
| "valid_digits [c] = is_digit c"
| "valid_digits (c # d # cs) =
     (if is_digit c
      then (if d = CHR ''_'' then valid_digits cs else valid_digits (d # cs))
      else False)"

definition digits_value :: "string \<Rightarrow> int" where
  "digits_value ds = foldl (\<lambda>acc c. 10 * acc + (of_char c - 48)) 0 (filter is_digit ds)"

definition max_str_digits :: nat where
  "max_str_digits = 4300"

definition py_int :: "string \<Rightarrow> exn + int" where
  "py_int s =
     (let t = py_strip s;
          (sign, body) =
             (case t of
                [] \<Rightarrow> (1, [])
              | c # r \<Rightarrow> if c = CHR ''-'' then (- 1, r)
                         else if c = CHR ''+'' then (1, r) else (1, t))
      in if valid_digits body \<and> length (filter is_digit body) \<le> max_str_digits
         then Inr (sign * digits_value body) else Inl ValueError)"

text \<open>
  \<^verbatim>\<open>str.isdigit\<close>: below 256 it holds for \<open>0\<close> to \<open>9\<close> and for the superscripts two,
  three and one (178, 179, 185), which \<^verbatim>\<open>int\<close> does not accept.
\<close>

definition str_isdigit :: "char \<Rightarrow> bool" where
  "str_isdigit c = (is_digit c \<or> (of_char c :: nat) \<in> {178, 179, 185})"

text \<open>
  \<^verbatim>\<open>str.lower\<close>: below 256 the capital letters are \<open>A\<close> to \<open>Z\<close> and the code points
  192 to 222 without 215; the small letter is 32 further on.
\<close>

definition lower_char :: "char \<Rightarrow> char" where
  "lower_char c =
     (let n = (of_char c :: nat)
      in if (65 \<le> n \<and> n \<le> 90) \<or> (192 \<le> n \<and> n \<le> 222 \<and> n \<noteq> 215)
         then char_of (n + 32) else c)"

definition py_lower :: "string \<Rightarrow> string" where
  "py_lower s = map lower_char s"

text \<open>
  The slice \<^verbatim>\<open>xs[start:stop]\<close>: a negative bound counts from the end, and every bound is
  clipped to the list.
\<close>

definition slice_index :: "int \<Rightarrow> int \<Rightarrow> int" where
  "slice_index len i = (if i < 0 then max 0 (i + len) else min i len)"

definition py_slice :: "'a list \<Rightarrow> int \<Rightarrow> int \<Rightarrow> 'a list" where
  "py_slice xs start stop =
     (let n = int (length xs);
          lo = slice_index n start;
          hi = slice_index n stop
      in drop (nat lo) (take (nat hi) xs))"

section \<open>fetcher.py: the scoring function\<close>

text \<open>
  What \<^verbatim>\<open>estimate_popularity\<close> reads. Of a feed entry, the two parsed timestamps (a
  \<^verbatim>\<open>struct_time\<close> is a tuple of integers; an absent key is \<open>None\<close>). Of the scraped page,
  the text of the first element that a CSS selector matches, and the value of an attribute
  on the first element that carries it. Of the source, its \<^verbatim>\<open>popularity_selector\<close>. Of the
  world, the clock, \<^verbatim>\<open>time.mktime\<close> (which raises on a tuple it cannot convert) and the
  random jitter.

  A \<^verbatim>\<open>float\<close> is the real number it stands for. The rounding of the machine is not
  computed here: \<open>to_double\<close> is the rounding of a real to the nearest double, applied to
  the result of every operation on floats, and \<open>round_2\<close> is \<^verbatim>\<open>round(x, 2)\<close> on doubles;
  both are taken as they are. A sum beyond the largest double is \<^verbatim>\<open>inf\<close> in Python, which
  raises nothing; it has no counterpart here.
\<close>

type_synonym struct_time = "int list"

record feed_entry =
  published_parsed :: "struct_time option"
  updated_parsed :: "struct_time option"

record page =
  select_one :: "string \<Rightarrow> string option"
  find_attr :: "string \<Rightarrow> string option"

record source_config =
  popularity_selector :: "string option"

record score_env =
  time_now :: real
  mktime :: "struct_time \<Rightarrow> exn + real"
  jitter :: real
  to_double :: "real \<Rightarrow> real"
  round_2 :: "real \<Rightarrow> real"

text \<open>
  An \<^verbatim>\<open>int\<close> that meets a \<^verbatim>\<open>float\<close> in \<^verbatim>\<open>+\<close> or \<^verbatim>\<open>*\<close> is converted to \<^verbatim>\<open>float\<close> first. The
  conversion rounds to the nearest double and raises \<^verbatim>\<open>OverflowError\<close> (``int too large
  to convert to float'') when that is beyond the largest double, \<open>2^1024 - 2^971\<close>: from
  \<open>2^1024 - 2^970\<close> on.
\<close>

definition float_of_int :: "score_env \<Rightarrow> int \<Rightarrow> exn + real" where
  "float_of_int env n =
     (if \<bar>n\<bar> < 2 ^ 1024 - 2 ^ 970 then Inr (to_double env (of_int n)) else Inl OverflowError)"

text \<open>Lines 200-206: the freshness bonus; \<^verbatim>\<open>except Exception: pass\<close> covers the block.\<close>

definition freshness :: "score_env \<Rightarrow> feed_entry \<Rightarrow> real" where
  "freshness env entry =
     (let pub = (case published_parsed entry of
                   None \<Rightarrow> updated_parsed entry
                 | Some t \<Rightarrow> if t = [] then updated_parsed entry else Some t)
      in case pub of
           None \<Rightarrow> 0
         | Some t \<Rightarrow>
             if t = [] then 0
             else (case mktime env t of
                     Inl e \<Rightarrow> 0
                   | Inr m \<Rightarrow>
                       (let age_hours = to_double env (to_double env (time_now env - m) / 3600)
                        in max 0 (to_double env (100 - age_hours)))))"

text \<open>
  Lines 209-216: the comment count. Only \<^verbatim>\<open>ValueError\<close> is caught. The result is the
  score and the comment count after the block.
\<close>

definition comment_signal ::
    "score_env \<Rightarrow> page option \<Rightarrow> source_config \<Rightarrow> real \<Rightarrow> exn + (real \<times> int)" where
  "comment_signal env soup source score =
     (case soup of
        None \<Rightarrow> Inr (score, 0)
      | Some pg \<Rightarrow>
          (case popularity_selector source of
             None \<Rightarrow> Inr (score, 0)
           | Some sel \<Rightarrow>
               if sel = [] then Inr (score, 0)
               else (case select_one pg sel of
                       None \<Rightarrow> Inr (score, 0)
                     | Some text \<Rightarrow>
                         (case py_int (filter str_isdigit text) of
                            Inl e \<Rightarrow> Inr (score, 0)
                          | Inr comments \<Rightarrow>
                              (case float_of_int env (comments * 2) of
                                 Inl e \<Rightarrow> Inl e
                               | Inr x \<Rightarrow> Inr (to_double env (score + x), comments))))))"

text \<open>
  Lines 219-227: the engagement attributes. \<^verbatim>\<open>ValueError\<close> and \<^verbatim>\<open>TypeError\<close> are
  caught, inside the loop.
\<close>

fun engagement :: "score_env \<Rightarrow> page \<Rightarrow> string list \<Rightarrow> real \<Rightarrow> exn + real" where
  "engagement env pg [] score = Inr score"
| "engagement env pg (attr # rest) score =
     (case find_attr pg attr of
        None \<Rightarrow> engagement env pg rest score
      | Some v \<Rightarrow>
          (case py_int v of
             Inl e \<Rightarrow> engagement env pg rest score
           | Inr n \<Rightarrow>
               (case float_of_int env n of
                  Inl e \<Rightarrow> Inl e
                | Inr x \<Rightarrow>
                    engagement env pg rest
                      (to_double env (score + to_double env (x * 0.5))))))"

text \<open>\<^verbatim>\<open>estimate_popularity\<close>, lines 191-232.\<close>

definition estimate_popularity ::
    "score_env \<Rightarrow> feed_entry \<Rightarrow> page option \<Rightarrow> source_config \<Rightarrow> exn + (real \<times> int)" where
  "estimate_popularity env entry soup source =
     (let score = to_double env (0 + freshness env entry)
      in case comment_signal env soup source score of
           Inl e \<Rightarrow> Inl e
         | Inr (score1, comments) \<Rightarrow>
             (case (case soup of
                      None \<Rightarrow> Inr score1
                    | Some pg \<Rightarrow>
                        engagement env pg
                          [''data-shares'', ''data-reactions'', ''data-likes''] score1) of
                Inl e \<Rightarrow> Inl e
              | Inr score2 \<Rightarrow>
                  Inr (round_2 env (to_double env (score2 + jitter env)), comments)))"

section \<open>api.py: the article listing\<close>

text \<open>The query parameters of \<^verbatim>\<open>GET /api/articles\<close>; \<open>None\<close> is a parameter not given.\<close>

record query_args =
  arg_category :: "string option"
  arg_badge :: "string option"
  arg_source :: "string option"
  arg_limit :: "string option"
  arg_offset :: "string option"

record listing =
  resp_total :: nat
  resp_limit :: int
  resp_offset :: int
  resp_articles :: "Published list"

text \<open>A filter applies when its parameter is given and not empty.\<close>

definition filter_by :: "string option \<Rightarrow> (string \<Rightarrow> Published \<Rightarrow> bool) \<Rightarrow> Published list \<Rightarrow> Published list" where
  "filter_by arg keep articles =
     (case arg of
        None \<Rightarrow> articles
      | Some v \<Rightarrow> if v = [] then articles else filter (keep v) articles)"

text \<open>\<^verbatim>\<open>int(request.args.get(name, default))\<close>.\<close>

definition int_arg :: "string option \<Rightarrow> int \<Rightarrow> exn + int" where
  "int_arg arg dflt = (case arg of None \<Rightarrow> Inr dflt | Some v \<Rightarrow> py_int v)"

text \<open>\<^verbatim>\<open>get_articles\<close>, lines 27-63, on the content of the published file.\<close>

definition get_articles :: "Published list option \<Rightarrow> query_args \<Rightarrow> exn + listing" where
  "get_articles pub_file args =
     (let articles = load_existing pub_file;
          articles = filter_by (arg_category args) (\<lambda>v a. category a = v) articles;
          articles = filter_by (arg_badge args) (\<lambda>v a. badge a = Some v) articles;
          articles = filter_by (arg_source args)
                       (\<lambda>v a. py_lower (source_name a) = py_lower v) articles
      in case int_arg (arg_limit args) 20 of
           Inl e \<Rightarrow> Inl e
         | Inr l \<Rightarrow>
             (let limit = min l 100
              in case int_arg (arg_offset args) 0 of
                   Inl e \<Rightarrow> Inl e
                 | Inr offset \<Rightarrow>
                     Inr \<lparr>resp_total = length articles, resp_limit = limit,
                          resp_offset = offset,
                          resp_articles = py_slice articles offset (offset + limit)\<rparr>))"

section \<open>Example data\<close>

definition example_id :: "nat \<Rightarrow> string" where
  "example_id k = CHR ''e'' # replicate k (CHR ''0'')"

definition example_article :: "string \<Rightarrow> string \<Rightarrow> real \<Rightarrow> Article" where
  "example_article i src score =
     \<lparr>id_key = i, source_name = src, source_logo = [], original_title = ''Untitled'',
      original_description = [], url = ''https://example.org/a'', image_url = [],
      published_at = ''2024-01-01T00:00:00+00:00'', category = ''architecture'',
      tags = [], popularity_score = score, comment_count = 0, rewritten_title = [],
      rewritten_description = [], status = ''pending''\<rparr>"

definition example_published :: "string \<Rightarrow> Published" where
  "example_published i =
     (asdict (example_article i ''Dezeen'' 0))
       \<lparr>status := ''published'', published_at_archyards := Some ''2024-01-01T07:00:00+00:00'',
        badge := Some ''aggregated''\<rparr>"

definition example_store :: "nat \<Rightarrow> Published list" where
  "example_store n = map (\<lambda>k. example_published (example_id k)) [0..<n]"

definition example_env :: run_env where
  "example_env =
     \<lparr>api_key = None, date_str = ''2024-01-02'', now = ''2024-01-02T07:00:00+00:00'',
      mkdir_error = None, copy_error = None,
      crawled = [Inr [example_article ''a1'' ''Dezeen'' 90]],
      service = (\<lambda>a. APIFailure)\<rparr>"

definition example_storage :: "Published list option \<Rightarrow> storage" where
  "example_storage pub =
     \<lparr>raw_articles = None, rewritten_articles = None, published_articles = pub,
      archive = None\<rparr>"

definition failing_copy_env :: run_env where
  "failing_copy_env = example_env\<lparr>api_key := Some ''key'', copy_error := Some (OSError, During_copy)\<rparr>"

text \<open>A run with an API key, where the service answers with a new title only.\<close>

definition rewriting_env :: run_env where
  "rewriting_env =
     example_env\<lparr>api_key := Some ''key'', service := (\<lambda>a. Reply (Some ''New title'') None)\<rparr>"

text \<open>
  The selection scenario: three articles of one source with scores 90, 80, 70 and one of
  another source with score 60.
\<close>

definition example_crawl :: "(exn + Article list) list" where
  "example_crawl =
     [Inr [example_article ''A'' ''S1'' 90, example_article ''B'' ''S1'' 80,
           example_article ''C'' ''S1'' 70],
      Inl OtherError,
      Inr [example_article ''D'' ''S2'' 60]]"

text \<open>A batch after the rewrite step: one article failed, one was rewritten.\<close>

definition example_batch :: "Published list" where
  "example_batch =
     [(example_published ''F'')\<lparr>status := ''rewrite_failed''\<rparr>,
      (example_published ''R'')\<lparr>status := ''rewritten''\<rparr>]"

text \<open>
  A scraped page whose first element with a \<^verbatim>\<open>data-shares\<close> attribute carries a number
  of 401 digits, and nothing else of interest.
\<close>

definition huge_digits :: string where
  "huge_digits = CHR ''1'' # replicate 400 (CHR ''0'')"

definition example_page :: page where
  "example_page =
     \<lparr>select_one = (\<lambda>sel. None),
      find_attr = (\<lambda>attr. if attr = ''data-shares'' then Some huge_digits else None)\<rparr>"

definition example_score_env :: score_env where
  "example_score_env =
     \<lparr>time_now = 0, mktime = (\<lambda>t. Inr 0), jitter = 0, to_double = (\<lambda>x. x),
      round_2 = (\<lambda>x. x)\<rparr>"

definition example_entry :: feed_entry where
  "example_entry = \<lparr>published_parsed = None, updated_parsed = None\<rparr>"

definition example_source :: source_config where
  "example_source = \<lparr>popularity_selector = None\<rparr>"

text \<open>The request \<^verbatim>\<open>GET /api/articles?limit=-1\<close>.\<close>

definition negative_limit_query :: query_args where
  "negative_limit_query =
     \<lparr>arg_category = None, arg_badge = None, arg_source = None,
      arg_limit = Some ''-1'', arg_offset = None\<rparr>"

section \<open>Notions used in the statements\<close>

text \<open>The number of articles of a source in a list.\<close>

definition per_source :: "string \<Rightarrow> Article list \<Rightarrow> nat" where
  "per_source s xs = length (filter (\<lambda>a. source_name a = s) xs)"

text \<open>The loop invariant of the greedy fill: the dict counts what was selected.\<close>

definition counts_agree :: "(string \<rightharpoonup> int) \<Rightarrow> Article list \<Rightarrow> bool" where
  "counts_agree sc sel =
     (\<forall>s. (case sc s of None \<Rightarrow> 0 | Some c \<Rightarrow> c) = int (per_source s sel))"

section \<open>Properties of the merge\<close>

lemma merge_unfold:
  "merge_with_published pub_file new_articles =
     take 150 (truly_new (load_existing pub_file) new_articles @ load_existing pub_file)"
  by (simp add: merge_with_published_def Let_def)

lemma set_truly_new:
  "set (truly_new existing new_articles) =
     {a \<in> set new_articles. id_key a \<notin> id_key ` set existing}"
  by (auto simp: truly_new_def Let_def)

lemma truly_new_empty_iff:
  "truly_new existing new_articles = [] \<longleftrightarrow>
     (\<forall>a\<in>set new_articles. id_key a \<in> id_key ` set existing)"
  by (auto simp: truly_new_def Let_def filter_empty_conv)

lemma merge_set_subset:
  "set (merge_with_published pub_file new_articles)
     \<subseteq> set (truly_new (load_existing pub_file) new_articles) \<union> set (load_existing pub_file)"
proof -
  have "set (merge_with_published pub_file new_articles)
          \<subseteq> set (truly_new (load_existing pub_file) new_articles @ load_existing pub_file)"
    unfolding merge_unfold by (rule set_take_subset)
  then show ?thesis by simp
qed

text \<open>Facts about the example data.\<close>

lemma example_id_inj: "example_id j = example_id k \<longleftrightarrow> j = k"
  by (metis example_id_def length_replicate list.inject)

lemma id_key_example: "id_key (example_published i) = i"
  by (simp add: example_published_def asdict_def example_article_def)

lemma ids_example_store: "map id_key (example_store n) = map example_id [0..<n]"
  by (simp add: example_store_def id_key_example comp_def)

lemma length_example_store: "length (example_store n) = n"
  by (simp add: example_store_def)

lemma take_example_store: "m \<le> n \<Longrightarrow> take m (example_store n) = example_store m"
  by (simp add: example_store_def take_map)

text \<open>
  Claim C3 (retention): for every new batch and every existing store, of any length, the
  merged store has at most 150 records, and the truncation removes records only from the
  tail: the merged store followed by the dropped records is the list of the surviving new
  records followed by the existing store.
\<close>

theorem merge_retention:
  "length (merge_with_published pub_file new_articles) \<le> 150 \<and>
   (\<exists>dropped. truly_new (load_existing pub_file) new_articles @ load_existing pub_file
        = merge_with_published pub_file new_articles @ dropped) \<and>
   prefix (merge_with_published pub_file new_articles)
      (truly_new (load_existing pub_file) new_articles @ load_existing pub_file)"
proof -
  let ?all = "truly_new (load_existing pub_file) new_articles @ load_existing pub_file"
  have m: "merge_with_published pub_file new_articles = take 150 ?all"
    by (rule merge_unfold)
  have "?all = take 150 ?all @ drop 150 ?all" by (rule append_take_drop_id [symmetric])
  then have "\<exists>dropped. ?all = merge_with_published pub_file new_articles @ dropped"
    unfolding m by blast
  moreover have "length (merge_with_published pub_file new_articles) \<le> 150"
    unfolding m by simp
  moreover have "prefix (merge_with_published pub_file new_articles) ?all"
    unfolding m by (rule take_is_prefix)
  ultimately show ?thesis by blast
qed

text \<open>
  The scenario of the specification: a store of 160 records (10 new ones in front of 150
  existing ones) is cut to its first 150.
\<close>

theorem merge_retention_witness:
  "length (merge_with_published (Some (example_store 150))
             (map (\<lambda>k. example_published (example_id k)) [150..<160])) \<le> 150"
  using merge_retention
    [of "Some (example_store 150)" "map (\<lambda>k. example_published (example_id k)) [150..<160]"]
  by simp

text \<open>
  Claim C6: the merge drops every new record whose id is the id of a record of the
  existing store, and puts the remaining new records, in their order, in front of the
  existing store (before the cut to 150 records). In particular, with the store \<open>[x]\<close>
  and the batch \<open>[dup, y]\<close>, where \<open>dup\<close> has the id of \<open>x\<close> and \<open>y\<close> another id, the
  result is \<open>[y, x]\<close>.
\<close>

theorem merge_filters_and_prepends:
  "merge_with_published pub_file new_articles
     = take 150
         (filter (\<lambda>a. \<not> (\<exists>e\<in>set (load_existing pub_file). id_key e = id_key a)) new_articles
          @ load_existing pub_file) \<and>
   (id_key dup = id_key x \<and> id_key y \<noteq> id_key x \<longrightarrow>
      merge_with_published (Some [x]) [dup, y] = [y, x])"
proof -
  have "truly_new (load_existing pub_file) new_articles
          = filter (\<lambda>a. \<not> (\<exists>e\<in>set (load_existing pub_file). id_key e = id_key a)) new_articles"
    unfolding truly_new_def Let_def by (rule filter_cong) (auto simp: image_iff)
  then have "merge_with_published pub_file new_articles
     = take 150
         (filter (\<lambda>a. \<not> (\<exists>e\<in>set (load_existing pub_file). id_key e = id_key a)) new_articles
          @ load_existing pub_file)"
    by (simp only: merge_unfold)
  moreover have "id_key dup = id_key x \<and> id_key y \<noteq> id_key x \<longrightarrow>
      merge_with_published (Some [x]) [dup, y] = [y, x]"
    by (simp add: merge_unfold load_existing_def truly_new_def)
  ultimately show ?thesis by blast
qed

theorem merge_filters_and_prepends_witness:
  "merge_with_published (Some [example_published ''X''])
      [(example_published ''X'')\<lparr>status := ''pending''\<rparr>, example_published ''Y'']
     = [example_published ''Y'', example_published ''X'']"
proof -
  have ids: "id_key ((example_published ''X'')\<lparr>status := ''pending''\<rparr>)
               = id_key (example_published ''X'') \<and>
             id_key (example_published ''Y'') \<noteq> id_key (example_published ''X'')"
    by (simp add: id_key_example)
  from merge_filters_and_prepends
    [where dup = "(example_published ''X'')\<lparr>status := ''pending''\<rparr>"
       and x = "example_published ''X''" and y = "example_published ''Y''"
       and pub_file = None and new_articles = "[]"] ids
  show ?thesis by blast
qed

text \<open>
  A second merge of the same batch changes nothing exactly when every id of the batch is
  still in the store after the first merge.
\<close>

lemma merge_again_iff:
  "merge_with_published (Some (merge_with_published pub_file new_articles)) new_articles
      = merge_with_published pub_file new_articles
   \<longleftrightarrow> (\<forall>a\<in>set new_articles.
          id_key a \<in> id_key ` set (merge_with_published pub_file new_articles))"
proof -
  let ?r = "merge_with_published pub_file new_articles"
  let ?t = "truly_new ?r new_articles"
  have len: "length ?r \<le> 150" by (simp add: merge_unfold)
  have again: "merge_with_published (Some ?r) new_articles = take 150 (?t @ ?r)"
    by (simp add: merge_unfold load_existing_def)
  show ?thesis
  proof
    assume "\<forall>a\<in>set new_articles. id_key a \<in> id_key ` set ?r"
    then have "?t = []" by (simp add: truly_new_empty_iff)
    with len show "merge_with_published (Some ?r) new_articles = ?r"
      by (simp add: again)
  next
    assume eq: "merge_with_published (Some ?r) new_articles = ?r"
    show "\<forall>a\<in>set new_articles. id_key a \<in> id_key ` set ?r"
    proof (rule ccontr)
      assume "\<not> ?thesis"
      then have ne: "?t \<noteq> []" by (simp add: truly_new_empty_iff)
      then obtain b bs where t: "?t = b # bs" by (cases ?t) auto
      then have "b \<in> set ?t" by simp
      then have nb: "id_key b \<notin> id_key ` set ?r" by (simp add: set_truly_new)
      have "take 150 (?t @ ?r) = b # take 149 (bs @ ?r)" by (simp add: t)
      with again eq have "?r = b # take 149 (bs @ ?r)" by simp
      then have "b \<in> set ?r" by (metis list.set_intros(1))
      with nb show False by blast
    qed
  qed
qed

text \<open>When the first merge cuts nothing off, every id of the batch is in its result.\<close>

lemma merge_keeps_batch_ids:
  assumes "length (truly_new (load_existing pub_file) new_articles)
             + length (load_existing pub_file) \<le> 150"
  shows "\<forall>a\<in>set new_articles.
           id_key a \<in> id_key ` set (merge_with_published pub_file new_articles)"
proof
  fix a
  assume a: "a \<in> set new_articles"
  have m: "merge_with_published pub_file new_articles
             = truly_new (load_existing pub_file) new_articles @ load_existing pub_file"
    using assms by (simp add: merge_unfold)
  show "id_key a \<in> id_key ` set (merge_with_published pub_file new_articles)"
  proof (cases "id_key a \<in> id_key ` set (load_existing pub_file)")
    case True
    then show ?thesis unfolding m by auto
  next
    case False
    with a have "a \<in> set (truly_new (load_existing pub_file) new_articles)"
      by (simp add: set_truly_new)
    then show ?thesis unfolding m by auto
  qed
qed

text \<open>
  Claim C2, as stated (a second merge of the same batch never changes the store), fails.
  The store holds 150 records, the batch a record with a new id and a record with the id
  of the oldest record of the store: the first merge cuts the oldest record off, so the
  second merge takes the batch's record of that id for new and puts it in front.
\<close>

theorem merge_idempotent_counterexample:
  "merge_with_published
      (Some (merge_with_published (Some (example_store 150))
         [example_published (example_id 150), example_published (example_id 149)]))
      [example_published (example_id 150), example_published (example_id 149)]
   \<noteq> merge_with_published (Some (example_store 150))
         [example_published (example_id 150), example_published (example_id 149)]"
proof -
  let ?new = "[example_published (example_id 150), example_published (example_id 149)]"
  have fresh: "truly_new (example_store 150) ?new = [example_published (example_id 150)]"
    by (auto simp: truly_new_def Let_def ids_example_store id_key_example example_id_inj)
  have "merge_with_published (Some (example_store 150)) ?new
          = example_published (example_id 150) # take 149 (example_store 150)"
    by (simp add: merge_unfold load_existing_def fresh)
  then have r: "merge_with_published (Some (example_store 150)) ?new
          = example_published (example_id 150) # example_store 149"
    by (simp add: take_example_store)
  have "id_key (example_published (example_id 149))
          \<notin> id_key ` set (merge_with_published (Some (example_store 150)) ?new)"
    unfolding r by (auto simp: id_key_example example_store_def example_id_inj)
  then have "\<not> (\<forall>a\<in>set ?new.
        id_key a \<in> id_key ` set (merge_with_published (Some (example_store 150)) ?new))"
    by simp
  then show ?thesis
    by (simp only: merge_again_iff not_False_eq_True)
qed

text \<open>
  Claim C2, amended: for every new batch and every published store, a second merge of the
  same batch into the result of the first merge leaves the store unchanged (the same
  list: length, ids and order) if and only if every id of the batch occurs in the result
  of the first merge; and that is so whenever the first merge cuts nothing off, that is,
  whenever the surviving new records and the existing store are at most 150 together.
\<close>

theorem merge_idempotent_when_ids_kept:
  "(merge_with_published (Some (merge_with_published pub_file new_articles)) new_articles
        = merge_with_published pub_file new_articles
     \<longleftrightarrow> (\<forall>a\<in>set new_articles.
            id_key a \<in> id_key ` set (merge_with_published pub_file new_articles))) \<and>
   (length (truly_new (load_existing pub_file) new_articles)
        + length (load_existing pub_file) \<le> 150 \<longrightarrow>
      merge_with_published (Some (merge_with_published pub_file new_articles)) new_articles
        = merge_with_published pub_file new_articles)"
proof -
  have "length (truly_new (load_existing pub_file) new_articles)
        + length (load_existing pub_file) \<le> 150 \<longrightarrow>
      merge_with_published (Some (merge_with_published pub_file new_articles)) new_articles
        = merge_with_published pub_file new_articles"
    using merge_keeps_batch_ids [of pub_file new_articles]
    by (simp only: merge_again_iff) blast
  then show ?thesis
    using merge_again_iff [of pub_file new_articles] by blast
qed

theorem merge_idempotent_when_ids_kept_witness:
  "length (truly_new (load_existing (Some [example_published ''X'']))
       [example_published ''X'', example_published ''Y''])
     + length (load_existing (Some [example_published ''X''])) \<le> 150 \<and>
   merge_with_published
      (Some (merge_with_published (Some [example_published ''X''])
               [example_published ''X'', example_published ''Y'']))
      [example_published ''X'', example_published ''Y'']
     = [example_published ''Y'', example_published ''X'']"
  using merge_idempotent_when_ids_kept
    [of "Some [example_published ''X'']" "[example_published ''X'', example_published ''Y'']"]
  by (simp add: merge_unfold load_existing_def truly_new_def id_key_example)

text \<open>
  Claim C10, as stated (the store has unique ids, the batch is any batch), fails: the
  merge compares the batch with the store only, so two records of one id in the batch
  both reach an empty store.
\<close>

theorem merge_unique_ids_counterexample:
  "distinct (map id_key (load_existing None)) \<and>
   \<not> distinct (map id_key
        (merge_with_published None [example_published ''Y'', example_published ''Y'']))"
  by (simp add: merge_unfold load_existing_def truly_new_def)

text \<open>
  Claim C10, amended: for every existing store in which no two records share an id and
  every new batch in which no two records share an id, no two records of the merged
  store share an id.
\<close>

theorem merge_preserves_unique_ids:
  assumes "distinct (map id_key new_articles)"
    and "distinct (map id_key (load_existing pub_file))"
  shows "distinct (map id_key (merge_with_published pub_file new_articles))"
proof -
  let ?ex = "load_existing pub_file"
  have "distinct (map id_key (truly_new ?ex new_articles))"
    using assms(1) by (simp add: truly_new_def Let_def distinct_map_filter)
  moreover have "id_key ` set (truly_new ?ex new_articles) \<inter> id_key ` set ?ex = {}"
    by (auto simp: set_truly_new)
  ultimately have "distinct (map id_key (truly_new ?ex new_articles @ ?ex))"
    using assms(2) by simp
  then have "distinct (take 150 (map id_key (truly_new ?ex new_articles @ ?ex)))"
    by (rule distinct_take)
  then show ?thesis
    by (simp only: merge_unfold take_map)
qed

theorem merge_preserves_unique_ids_witness:
  "distinct (map id_key [example_published ''X'', example_published ''Y'']) \<and>
   distinct (map id_key (load_existing (Some [example_published ''X'']))) \<and>
   distinct (map id_key
      (merge_with_published (Some [example_published ''X''])
         [example_published ''X'', example_published ''Y'']))"
proof -
  have a: "distinct (map id_key [example_published ''X'', example_published ''Y''])"
    by (simp add: id_key_example)
  have b: "distinct (map id_key (load_existing (Some [example_published ''X''])))"
    by (simp add: load_existing_def)
  show ?thesis
    using a b merge_preserves_unique_ids [OF a b] by blast
qed

section \<open>Properties of the selection engine\<close>

lemma collect_sources_set:
  "set (collect_sources results)
     = (\<Union>r\<in>set results. case r of Inl e \<Rightarrow> {} | Inr articles \<Rightarrow> set articles)"
  by (induction results rule: collect_sources.induct) auto

lemma dedupe_loop_set: "set (dedupe_loop xs seen unique) \<subseteq> set unique \<union> set xs"
  by (induction xs seen unique rule: dedupe_loop.induct) (auto split: if_splits)

lemma dedupe_loop_distinct:
  "distinct (map id_key unique) \<Longrightarrow> id_key ` set unique \<subseteq> seen \<Longrightarrow>
   distinct (map id_key (dedupe_loop xs seen unique))"
  by (induction xs seen unique rule: dedupe_loop.induct) auto

lemma select_loop_set: "set (select_loop n xs sel sc) \<subseteq> set sel \<union> set xs"
  by (induction n xs sel sc rule: select_loop.induct)
    (auto simp: Let_def fun_upd_def split: if_splits)

lemma select_loop_length:
  "int (length (select_loop n xs sel sc)) \<le> max (int (length sel)) n"
  by (induction n xs sel sc rule: select_loop.induct)
    (auto simp: Let_def fun_upd_def split: if_splits)

text \<open>
  The greedy fill keeps the order of the list it walks: whatever relation orders the
  selected articles followed by the rest orders the result.
\<close>

lemma select_loop_sorted:
  "sorted_wrt R (sel @ xs) \<Longrightarrow> sorted_wrt R (select_loop n xs sel sc)"
proof (induction n xs sel sc rule: select_loop.induct)
  case (1 top_n selected source_count)
  then show ?case by simp
next
  case (2 top_n art rest selected source_count)
  let ?count = "case source_count (source_name art) of None \<Rightarrow> 0 | Some c \<Rightarrow> c"
  from "2.prems" have a: "sorted_wrt R ((selected @ [art]) @ rest)" by simp
  from "2.prems" have b: "sorted_wrt R (selected @ rest)" by (auto simp: sorted_wrt_append)
  from "2.prems" have c: "sorted_wrt R selected" by (auto simp: sorted_wrt_append)
  show ?case
  proof (cases "int (length selected) \<ge> top_n")
    case True
    then show ?thesis using c by simp
  next
    case go: False
    show ?thesis
    proof (cases "?count < 2")
      case True
      show ?thesis
        using "2.IH"(1) [OF go refl True a] go True by (simp add: Let_def fun_upd_def)
    next
      case False
      show ?thesis
        using "2.IH"(2) [OF go refl False b] go False by (simp add: Let_def)
    qed
  qed
qed

lemma select_loop_distinct:
  "distinct (map id_key (sel @ xs)) \<Longrightarrow> distinct (map id_key (select_loop n xs sel sc))"
proof (induction n xs sel sc rule: select_loop.induct)
  case (1 top_n selected source_count)
  then show ?case by simp
next
  case (2 top_n art rest selected source_count)
  let ?count = "case source_count (source_name art) of None \<Rightarrow> 0 | Some c \<Rightarrow> c"
  from "2.prems" have a: "distinct (map id_key ((selected @ [art]) @ rest))" by simp
  from "2.prems" have b: "distinct (map id_key (selected @ rest))" by auto
  from "2.prems" have c: "distinct (map id_key selected)" by auto
  show ?case
  proof (cases "int (length selected) \<ge> top_n")
    case True
    then show ?thesis using c by simp
  next
    case go: False
    show ?thesis
    proof (cases "?count < 2")
      case True
      show ?thesis
        using "2.IH"(1) [OF go refl True a] go True by (simp add: Let_def fun_upd_def)
    next
      case False
      show ?thesis
        using "2.IH"(2) [OF go refl False b] go False by (simp add: Let_def)
    qed
  qed
qed

text \<open>
  The cap: while the dict counts the selected articles of every source and no source has
  more than two, the result has at most two of every source.
\<close>

lemma select_loop_cap:
  "counts_agree sc sel \<Longrightarrow> (\<forall>s. per_source s sel \<le> 2) \<Longrightarrow>
   per_source s (select_loop n xs sel sc) \<le> 2"
proof (induction n xs sel sc rule: select_loop.induct)
  case (1 top_n selected source_count)
  then show ?case by simp
next
  case (2 top_n art rest selected source_count)
  let ?count = "case source_count (source_name art) of None \<Rightarrow> 0 | Some c \<Rightarrow> c"
  have cnt: "?count = int (per_source (source_name art) selected)"
    using "2.prems"(1) by (simp add: counts_agree_def)
  show ?case
  proof (cases "int (length selected) \<ge> top_n")
    case True
    then show ?thesis using "2.prems" by simp
  next
    case go: False
    show ?thesis
    proof (cases "?count < 2")
      case True
      have agree: "counts_agree (source_count(source_name art \<mapsto> ?count + 1)) (selected @ [art])"
        using "2.prems"(1) cnt by (auto simp: counts_agree_def per_source_def)
      have cap: "\<forall>s. per_source s (selected @ [art]) \<le> 2"
        using "2.prems"(2) True cnt by (auto simp: per_source_def)
      show ?thesis
        using "2.IH"(1) [OF go refl True agree cap] go True
        by (simp add: Let_def fun_upd_def)
    next
      case False
      show ?thesis
        using "2.IH"(2) [OF go refl False "2.prems"] go False by (simp add: Let_def)
    qed
  qed
qed

lemma sort_by_score_sorted:
  "sorted_wrt (\<lambda>a b. popularity_score a \<ge> popularity_score b) (sort_by_score xs)"
proof -
  have "sorted (map (\<lambda>a. - popularity_score a) (sort_by_score xs))"
    by (simp add: sort_by_score_def)
  then show ?thesis by (simp add: sorted_map)
qed

text \<open>
  Claim C1, as stated (the output has at most \<open>top_n\<close> articles, for every \<open>top_n\<close>),
  fails for a negative \<open>top_n\<close>: the loop stops at once and returns the empty list, whose
  length 0 is not at most \<open>-1\<close>.
\<close>

theorem crawl_all_size_counterexample:
  "crawl_all example_crawl (- 1) = [] \<and>
   \<not> int (length (crawl_all example_crawl (- 1))) \<le> - 1"
  by (simp add: crawl_all_def example_crawl_def sort_by_score_def example_article_def)

text \<open>
  Claim C1, amended: for every list of candidates (what the sources gave, the sources
  that raised left out) and every \<open>top_n\<close>, the selection returns only candidates, at
  most \<open>max(top_n, 0)\<close> of them, at most 2 of every source, in the order of descending
  popularity score, and no two of one id.
\<close>

theorem crawl_all_selection:
  "set (crawl_all results top_n) \<subseteq> set (collect_sources results) \<and>
   int (length (crawl_all results top_n)) \<le> max 0 top_n \<and>
   (\<forall>s. per_source s (crawl_all results top_n) \<le> 2) \<and>
   sorted_wrt (\<lambda>a b. popularity_score a \<ge> popularity_score b) (crawl_all results top_n) \<and>
   distinct (map id_key (crawl_all results top_n))"
proof -
  let ?unique = "dedupe_loop (collect_sources results) {} []"
  let ?ranked = "sort_by_score ?unique"
  have c: "crawl_all results top_n = select_loop top_n ?ranked [] Map.empty"
    by (simp add: crawl_all_def Let_def)
  have "set (crawl_all results top_n) \<subseteq> set ?ranked"
    unfolding c using select_loop_set [of top_n ?ranked "[]" Map.empty] by simp
  also have "\<dots> = set ?unique" by (simp add: sort_by_score_def)
  also have "\<dots> \<subseteq> set (collect_sources results)"
    using dedupe_loop_set [of "collect_sources results" "{}" "[]"] by simp
  finally have sub: "set (crawl_all results top_n) \<subseteq> set (collect_sources results)" .
  have len: "int (length (crawl_all results top_n)) \<le> max 0 top_n"
    unfolding c using select_loop_length [of top_n ?ranked "[]" Map.empty] by simp
  have cap: "\<forall>s. per_source s (crawl_all results top_n) \<le> 2"
    unfolding c by (intro allI select_loop_cap) (simp_all add: counts_agree_def per_source_def)
  have srt: "sorted_wrt (\<lambda>a b. popularity_score a \<ge> popularity_score b) (crawl_all results top_n)"
    unfolding c by (rule select_loop_sorted) (simp add: sort_by_score_sorted)
  have "distinct (map id_key ?unique)"
    by (rule dedupe_loop_distinct) simp_all
  then have "distinct (map id_key ?ranked)"
    by (simp add: sort_by_score_def distinct_map)
  then have dis: "distinct (map id_key (crawl_all results top_n))"
    unfolding c by (intro select_loop_distinct) simp
  from sub len cap srt dis show ?thesis by blast
qed

text \<open>
  The scenario of the specification: of A, B, C (one source, scores 90, 80, 70) and D
  (another source, score 60), with \<open>top_n = 3\<close>, the selection is A, B, D.
\<close>

lemma crawl_all_example:
  "crawl_all example_crawl 3
     = [example_article ''A'' ''S1'' 90, example_article ''B'' ''S1'' 80,
        example_article ''D'' ''S2'' 60]"
  by (simp add: crawl_all_def example_crawl_def sort_by_score_def example_article_def Let_def)

theorem crawl_all_selection_witness:
  "crawl_all example_crawl 3
     = [example_article ''A'' ''S1'' 90, example_article ''B'' ''S1'' 80,
        example_article ''D'' ''S2'' 60] \<and>
   int (length (crawl_all example_crawl 3)) \<le> max 0 3 \<and>
   per_source ''S1'' (crawl_all example_crawl 3) \<le> 2"
  using crawl_all_selection [of example_crawl 3] crawl_all_example by blast

section \<open>Properties of the pipeline\<close>

lemma mark_as_published_set:
  "set (mark_as_published t articles) = stamp_article t ` set articles"
  by (simp add: mark_as_published_def)

lemma id_key_stamp_article: "id_key (stamp_article t a) = id_key a"
  by (simp add: stamp_article_def)

text \<open>
  The keys of the JSON form of an article include \<^verbatim>\<open>status\<close>, so the branch without an
  API key raises on the first article.
\<close>

lemma pending_batch_raises: "articles \<noteq> [] \<Longrightarrow> pending_batch articles = Inl TypeError"
  by (cases articles) (simp_all add: dict_with_status_def dict_keys_def)

lemma crawl_example_env:
  "crawl_all (crawled example_env) 5 = [example_article ''a1'' ''Dezeen'' 90]"
  by (simp add: example_env_def crawl_all_def sort_by_score_def Let_def)

text \<open>
  Claim C4, on the code: without an API key and with one crawled article, the run saves
  the raw batch and then ends with \<^verbatim>\<open>TypeError\<close>; nothing is published.
\<close>

theorem run_pipeline_without_key_raises:
  "run_pipeline example_env (example_storage None)
     = ((example_storage None)
          \<lparr>raw_articles := Some [asdict (example_article ''a1'' ''Dezeen'' 90)]\<rparr>,
        Inl TypeError)"
proof -
  have key: "no_api_key example_env"
    by (simp add: no_api_key_def example_env_def)
  have arch: "archive_previous example_env (example_storage None) = (example_storage None, Inr ())"
    by (simp add: archive_previous_def example_storage_def)
  have batch: "pending_batch (crawl_all (crawled example_env) 5) = Inl TypeError"
    unfolding crawl_example_env by (rule pending_batch_raises) simp
  show ?thesis
    unfolding run_pipeline_def arch Let_def batch
    by (simp add: key save_articles_def crawl_example_env)
qed

text \<open>
  With an API key and a service that answers, the same crawl is rewritten, stamped and
  published: the model of the pipeline does run through.
\<close>

lemma run_pipeline_with_key_example:
  "snd (run_pipeline rewriting_env (example_storage None))
     = Inr [stamp_article ''2024-01-02T07:00:00+00:00''
              ((asdict (example_article ''a1'' ''Dezeen'' 90))
                 \<lparr>rewritten_title := ''New title'', rewritten_description := [],
                  status := ''rewritten''\<rparr>)] \<and>
   published_articles (fst (run_pipeline rewriting_env (example_storage None)))
     = Some [stamp_article ''2024-01-02T07:00:00+00:00''
              ((asdict (example_article ''a1'' ''Dezeen'' 90))
                 \<lparr>rewritten_title := ''New title'', rewritten_description := [],
                  status := ''rewritten''\<rparr>)]"
proof -
  have crawl: "crawl_all (crawled rewriting_env) 5 = [example_article ''a1'' ''Dezeen'' 90]"
    by (simp add: rewriting_env_def example_env_def crawl_all_def sort_by_score_def Let_def)
  have key: "\<not> no_api_key rewriting_env"
    by (simp add: no_api_key_def rewriting_env_def)
  have arch: "archive_previous rewriting_env (example_storage None) = (example_storage None, Inr ())"
    by (simp add: archive_previous_def example_storage_def)
  show ?thesis
    unfolding run_pipeline_def arch Let_def crawl if_not_P [OF key]
    by (simp add: save_articles_def run_rewriter_def rewrite_def publish_step_def
        eligible_def mark_as_published_def merge_unfold load_existing_def truly_new_def
        example_storage_def rewriting_env_def example_env_def asdict_def example_article_def)
qed

text \<open>
  Claim C5: for every batch that reaches step 4, every record published by the run is
  the stamped form of a record of the batch whose status is \<^verbatim>\<open>rewritten\<close> or
  \<^verbatim>\<open>pending\<close>, never \<^verbatim>\<open>rewrite_failed\<close>; there are as many of them as such records; the
  published store written by the run holds only these and records of the existing store;
  and a record of the batch with status \<^verbatim>\<open>rewrite_failed\<close> whose id is neither the id of
  an eligible record of the batch nor in the existing store has its id nowhere in the
  published store.
\<close>

theorem publish_step_drops_failed:
  "(\<forall>r\<in>set (snd (publish_step env rewritten st)).
      \<exists>a\<in>set rewritten. status a \<noteq> ''rewrite_failed'' \<and>
         (status a = ''rewritten'' \<or> status a = ''pending'') \<and>
         r = stamp_article (now env) a) \<and>
   length (snd (publish_step env rewritten st))
      = length (filter (\<lambda>a. status a = ''rewritten'' \<or> status a = ''pending'') rewritten) \<and>
   (\<exists>merged. published_articles (fst (publish_step env rewritten st)) = Some merged \<and>
      set merged \<subseteq> set (snd (publish_step env rewritten st))
                    \<union> set (load_existing (published_articles st)) \<and>
      (\<forall>a\<in>set rewritten. status a = ''rewrite_failed'' \<longrightarrow>
         id_key a \<notin> id_key ` {b \<in> set rewritten. status b = ''rewritten'' \<or> status b = ''pending''} \<longrightarrow>
         id_key a \<notin> id_key ` set (load_existing (published_articles st)) \<longrightarrow>
         id_key a \<notin> id_key ` set merged))"
proof -
  let ?batch = "filter eligible rewritten"
  let ?to_publish = "mark_as_published (now env) ?batch"
  let ?existing = "load_existing (published_articles st)"
  let ?merged = "merge_with_published (published_articles st) ?to_publish"
  have snd_eq: "snd (publish_step env rewritten st) = ?to_publish"
    by (simp add: publish_step_def Let_def)
  have fst_eq: "published_articles (fst (publish_step env rewritten st)) = Some ?merged"
    by (simp add: publish_step_def Let_def)
  have sub: "set ?merged \<subseteq> set ?to_publish \<union> set ?existing"
    using merge_set_subset [of "published_articles st" ?to_publish]
    by (auto simp: set_truly_new)
  have origin: "\<forall>r\<in>set ?to_publish.
      \<exists>a\<in>set rewritten. status a \<noteq> ''rewrite_failed'' \<and>
         (status a = ''rewritten'' \<or> status a = ''pending'') \<and>
         r = stamp_article (now env) a"
  proof (intro ballI)
    fix r
    assume "r \<in> set ?to_publish"
    then obtain a where a: "a \<in> set rewritten" "eligible a" "r = stamp_article (now env) a"
      by (auto simp: mark_as_published_set)
    from a(2) have "status a \<noteq> ''rewrite_failed'' \<and>
        (status a = ''rewritten'' \<or> status a = ''pending'')"
      by (auto simp: eligible_def)
    with a show "\<exists>a\<in>set rewritten. status a \<noteq> ''rewrite_failed'' \<and>
         (status a = ''rewritten'' \<or> status a = ''pending'') \<and>
         r = stamp_article (now env) a"
      by blast
  qed
  have len: "length ?to_publish
      = length (filter (\<lambda>a. status a = ''rewritten'' \<or> status a = ''pending'') rewritten)"
    by (simp add: mark_as_published_def eligible_def [abs_def])
  have ids: "id_key ` set ?to_publish
      = id_key ` {b \<in> set rewritten. status b = ''rewritten'' \<or> status b = ''pending''}"
    by (auto simp: mark_as_published_set eligible_def id_key_stamp_article image_iff)
  have gone: "\<forall>a\<in>set rewritten. status a = ''rewrite_failed'' \<longrightarrow>
         id_key a \<notin> id_key ` {b \<in> set rewritten. status b = ''rewritten'' \<or> status b = ''pending''} \<longrightarrow>
         id_key a \<notin> id_key ` set ?existing \<longrightarrow>
         id_key a \<notin> id_key ` set ?merged"
  proof (intro ballI impI)
    fix a :: Published
    assume "id_key a \<notin> id_key ` {b \<in> set rewritten. status b = ''rewritten'' \<or> status b = ''pending''}"
      and "id_key a \<notin> id_key ` set ?existing"
    then have "id_key a \<notin> id_key ` (set ?to_publish \<union> set ?existing)"
      by (simp add: ids image_Un)
    with sub show "id_key a \<notin> id_key ` set ?merged" by blast
  qed
  show ?thesis
    unfolding snd_eq fst_eq using origin len sub gone by blast
qed

text \<open>
  At the example batch (one failed record F, one rewritten record R) and the store
  \<open>[X]\<close>: R is stamped and published in front of X, and F is nowhere.
\<close>

lemma publish_step_example:
  "publish_step example_env example_batch (example_storage (Some [example_published ''X'']))
     = ((example_storage (Some [example_published ''X'']))
          \<lparr>published_articles :=
             Some [stamp_article ''2024-01-02T07:00:00+00:00''
                     ((example_published ''R'')\<lparr>status := ''rewritten''\<rparr>),
                   example_published ''X'']\<rparr>,
        [stamp_article ''2024-01-02T07:00:00+00:00''
           ((example_published ''R'')\<lparr>status := ''rewritten''\<rparr>)])"
  by (simp add: publish_step_def example_batch_def eligible_def mark_as_published_def
      merge_unfold load_existing_def truly_new_def example_storage_def example_env_def
      id_key_stamp_article id_key_example Let_def)

theorem publish_step_drops_failed_witness:
  "snd (publish_step example_env example_batch (example_storage (Some [example_published ''X''])))
     = [stamp_article ''2024-01-02T07:00:00+00:00''
          ((example_published ''R'')\<lparr>status := ''rewritten''\<rparr>)] \<and>
   length (snd (publish_step example_env example_batch
                  (example_storage (Some [example_published ''X'']))))
     = length (filter (\<lambda>a. status a = ''rewritten'' \<or> status a = ''pending'') example_batch) \<and>
   ''F'' \<notin> id_key `
      set (the (published_articles
        (fst (publish_step example_env example_batch
                (example_storage (Some [example_published ''X'']))))))"
proof -
  let ?st = "example_storage (Some [example_published ''X''])"
  let ?F = "(example_published ''F'')\<lparr>status := ''rewrite_failed''\<rparr>"
  from publish_step_drops_failed [of example_env example_batch ?st]
  obtain merged where
    len: "length (snd (publish_step example_env example_batch ?st))
           = length (filter (\<lambda>a. status a = ''rewritten'' \<or> status a = ''pending'') example_batch)"
    and m: "published_articles (fst (publish_step example_env example_batch ?st)) = Some merged"
    and gone: "\<forall>a\<in>set example_batch. status a = ''rewrite_failed'' \<longrightarrow>
         id_key a \<notin> id_key ` {b \<in> set example_batch. status b = ''rewritten'' \<or> status b = ''pending''} \<longrightarrow>
         id_key a \<notin> id_key ` set (load_existing (published_articles ?st)) \<longrightarrow>
         id_key a \<notin> id_key ` set merged"
    by blast
  have F: "?F \<in> set example_batch" by (simp add: example_batch_def)
  have h1: "status ?F = ''rewrite_failed''" by simp
  have h2: "id_key ?F \<notin> id_key ` {b \<in> set example_batch. status b = ''rewritten'' \<or> status b = ''pending''}"
    by (auto simp: example_batch_def id_key_example)
  have h3: "id_key ?F \<notin> id_key ` set (load_existing (published_articles ?st))"
    by (simp add: example_storage_def load_existing_def id_key_example)
  from gone F h1 h2 h3 have "id_key ?F \<notin> id_key ` set merged" by blast
  then have "''F'' \<notin> id_key ` set (the (published_articles
        (fst (publish_step example_env example_batch ?st))))"
    by (simp add: m id_key_example)
  moreover have "snd (publish_step example_env example_batch ?st)
     = [stamp_article ''2024-01-02T07:00:00+00:00''
          ((example_published ''R'')\<lparr>status := ''rewritten''\<rparr>)]"
    by (simp add: publish_step_example)
  ultimately show ?thesis using len by blast
qed

text \<open>When the archival raises: a published store exists and \<^verbatim>\<open>mkdir\<close> or the copy raises.\<close>

lemma archive_previous_raises_iff:
  "snd (archive_previous env st) = Inl e \<longleftrightarrow>
     published_articles st \<noteq> None \<and>
     (mkdir_error env = Some e \<or>
      (mkdir_error env = None \<and> (\<exists>stage. copy_error env = Some (e, stage))))"
  by (auto simp: archive_previous_def Let_def split: option.splits copy_stage.splits)

lemma archive_previous_keeps_files:
  "raw_articles (fst (archive_previous env st)) = raw_articles st \<and>
   rewritten_articles (fst (archive_previous env st)) = rewritten_articles st \<and>
   published_articles (fst (archive_previous env st)) = published_articles st"
  by (auto simp: archive_previous_def Let_def split: option.splits copy_stage.splits)

text \<open>
  Claim C8, as stated (a failing archive copy does not abort the run), fails: with a
  published store to archive and a copy that raises \<^verbatim>\<open>OSError\<close>, the run ends with that
  exception, although an API key is set.
\<close>

theorem archive_failure_counterexample:
  "snd (run_pipeline failing_copy_env (example_storage (Some (example_store 1)))) = Inl OSError \<and>
   \<not> (\<exists>st' out. run_pipeline failing_copy_env (example_storage (Some (example_store 1)))
                    = (st', Inr out))"
  by (simp add: run_pipeline_def archive_previous_def example_storage_def failing_copy_env_def
      example_env_def Let_def)

text \<open>
  Claim C8, amended: a failure during the archival step (for example, the copy to the
  dated archive location raising an exception) aborts the pipeline run: the exception
  leaves the run, which ends where the archival ended, and the remaining crawl, rewrite
  and publish-merge steps do not execute (the raw, the rewritten and the published file
  are as before the run); the archival is a no-op when no published store exists yet.
\<close>

theorem archive_failure_aborts:
  "(snd (archive_previous env st) = Inl e \<longrightarrow>
      run_pipeline env st = (fst (archive_previous env st), Inl e) \<and>
      raw_articles (fst (run_pipeline env st)) = raw_articles st \<and>
      rewritten_articles (fst (run_pipeline env st)) = rewritten_articles st \<and>
      published_articles (fst (run_pipeline env st)) = published_articles st) \<and>
   (published_articles st \<noteq> None \<and> mkdir_error env = None \<and>
      copy_error env = Some (e, stage) \<longrightarrow> snd (archive_previous env st) = Inl e) \<and>
   (published_articles st = None \<longrightarrow> archive_previous env st = (st, Inr ()))"
proof -
  have run: "run_pipeline env st = (fst (archive_previous env st), Inl e)"
    if "snd (archive_previous env st) = Inl e"
    using that by (cases "archive_previous env st") (simp add: run_pipeline_def)
  have "snd (archive_previous env st) = Inl e \<longrightarrow>
      run_pipeline env st = (fst (archive_previous env st), Inl e) \<and>
      raw_articles (fst (run_pipeline env st)) = raw_articles st \<and>
      rewritten_articles (fst (run_pipeline env st)) = rewritten_articles st \<and>
      published_articles (fst (run_pipeline env st)) = published_articles st"
    using run archive_previous_keeps_files [of env st] by simp
  moreover have "published_articles st \<noteq> None \<and> mkdir_error env = None \<and>
      copy_error env = Some (e, stage) \<longrightarrow> snd (archive_previous env st) = Inl e"
    by (auto simp: archive_previous_raises_iff)
  moreover have "published_articles st = None \<longrightarrow> archive_previous env st = (st, Inr ())"
    by (simp add: archive_previous_def)
  ultimately show ?thesis by blast
qed

theorem archive_failure_aborts_witness:
  "snd (archive_previous failing_copy_env (example_storage (Some (example_store 1))))
      = Inl OSError \<and>
   snd (run_pipeline failing_copy_env (example_storage (Some (example_store 1))))
      = Inl OSError \<and>
   raw_articles (fst (run_pipeline failing_copy_env (example_storage (Some (example_store 1)))))
      = None \<and>
   published_articles
      (fst (run_pipeline failing_copy_env (example_storage (Some (example_store 1)))))
      = Some (example_store 1) \<and>
   archive_previous example_env (example_storage None) = (example_storage None, Inr ())"
proof -
  let ?st = "example_storage (Some (example_store 1))"
  have pub: "published_articles ?st \<noteq> None" by (simp add: example_storage_def)
  have mk: "mkdir_error failing_copy_env = None"
    by (simp add: failing_copy_env_def example_env_def)
  have cp: "copy_error failing_copy_env = Some (OSError, During_copy)"
    by (simp add: failing_copy_env_def)
  note inst = archive_failure_aborts [of failing_copy_env ?st OSError During_copy]
  from inst pub mk cp have fails: "snd (archive_previous failing_copy_env ?st) = Inl OSError"
    by blast
  with inst have run: "run_pipeline failing_copy_env ?st
        = (fst (archive_previous failing_copy_env ?st), Inl OSError)"
    and raw: "raw_articles (fst (run_pipeline failing_copy_env ?st)) = raw_articles ?st"
    and pubd: "published_articles (fst (run_pipeline failing_copy_env ?st))
        = published_articles ?st"
    by blast+
  have none: "published_articles (example_storage None) = None"
    by (simp add: example_storage_def)
  from archive_failure_aborts [of example_env "example_storage None" OSError During_copy] none
  have noop: "archive_previous example_env (example_storage None) = (example_storage None, Inr ())"
    by blast
  from fails run raw pubd noop show ?thesis
    by (simp add: example_storage_def)
qed

text \<open>
  What a failing copy can leave behind: the archive directory, and in it a file of the
  day that was cut short.
\<close>

lemma archive_after_failing_copy:
  "archive (fst (run_pipeline failing_copy_env (example_storage (Some (example_store 1)))))
     = Some [''2024-01-02'' \<mapsto> Cut_short]"
  by (simp add: run_pipeline_def archive_previous_def example_storage_def failing_copy_env_def
      example_env_def Let_def)

section \<open>Properties of the scoring function\<close>

lemma py_strip_id:
  assumes "s \<noteq> []" and "\<not> is_space (hd s)" and "\<not> is_space (last s)"
  shows "py_strip s = s"
proof -
  from assms(1,2) have d: "dropWhile is_space s = s" by (cases s) simp_all
  from assms(1,3) have "dropWhile is_space (rev s) = rev s"
    by (cases "rev s") (simp_all add: last_rev [symmetric] hd_rev)
  with d show ?thesis by (simp add: py_strip_def)
qed

lemma valid_digits_all:
  "s \<noteq> [] \<Longrightarrow> \<forall>c\<in>set s. is_digit c \<Longrightarrow> valid_digits s"
proof (induction s rule: valid_digits.induct)
  case 1
  then show ?case by simp
next
  case (2 c)
  then show ?case by simp
next
  case (3 c d cs)
  have "d \<noteq> CHR ''_''" using "3.prems"(2) by (auto simp: is_digit_def)
  then show ?case using 3 by simp
qed

lemma foldl_zeros:
  "foldl (\<lambda>acc c. 10 * acc + (of_char c - 48)) (a::int) (replicate n (CHR ''0'')) = a * 10 ^ n"
  by (induction n arbitrary: a) simp_all

lemma digits_value_huge: "digits_value huge_digits = 10 ^ 400"
  by (simp add: digits_value_def huge_digits_def is_digit_def foldl_zeros)

lemma py_int_huge: "py_int huge_digits = Inr (10 ^ 400)"
proof -
  have ne: "huge_digits \<noteq> []" by (simp add: huge_digits_def)
  have h: "\<not> is_space (hd huge_digits)" by (simp add: huge_digits_def is_space_def)
  have l: "\<not> is_space (last huge_digits)" by (simp add: huge_digits_def is_space_def)
  have strip: "py_strip huge_digits = huge_digits" by (rule py_strip_id [OF ne h l])
  have v: "valid_digits huge_digits"
    by (rule valid_digits_all [OF ne]) (auto simp: huge_digits_def is_digit_def)
  have n: "length (filter is_digit huge_digits) \<le> max_str_digits"
    by (simp add: huge_digits_def is_digit_def max_str_digits_def)
  have split: "(case huge_digits of
                  [] \<Rightarrow> (1, [])
                | c # r \<Rightarrow> if c = CHR ''-'' then (- 1, r)
                           else if c = CHR ''+'' then (1, r) else (1::int, huge_digits))
       = (1, huge_digits)"
    by (simp add: huge_digits_def)
  show ?thesis
    unfolding py_int_def strip Let_def split by (simp add: v n digits_value_huge)
qed

lemma float_of_int_huge: "float_of_int env (10 ^ 400) = Inl OverflowError"
  by (simp add: float_of_int_def)

text \<open>A number of 4301 digits is over the limit: \<^verbatim>\<open>int\<close> raises.\<close>

lemma py_int_too_long: "py_int (CHR ''1'' # replicate 4300 (CHR ''1'')) = Inl ValueError"
proof -
  let ?s = "CHR ''1'' # replicate 4300 (CHR ''1'')"
  have ne: "?s \<noteq> []" by simp
  have h: "\<not> is_space (hd ?s)" by (simp add: is_space_def)
  have l: "\<not> is_space (last ?s)" by (simp add: is_space_def)
  have strip: "py_strip ?s = ?s" by (rule py_strip_id [OF ne h l])
  have n: "\<not> length (filter is_digit ?s) \<le> max_str_digits"
    by (simp add: is_digit_def max_str_digits_def)
  have split: "(case ?s of
                  [] \<Rightarrow> (1, [])
                | c # r \<Rightarrow> if c = CHR ''-'' then (- 1, r)
                           else if c = CHR ''+'' then (1, r) else (1::int, ?s))
       = (1, ?s)"
    by simp
  show ?thesis
    unfolding py_int_def strip Let_def split using n by simp
qed

text \<open>A separator in front of a digit is not stripped: \<^verbatim>\<open>int\<close> raises.\<close>

lemma py_int_separator: "py_int [char_of (31::nat), CHR ''5''] = Inl ValueError"
  by (simp add: py_int_def py_strip_def is_space_def is_digit_def
      of_char_eq_iff [where ?'a = nat, symmetric])

text \<open>The parts of claim C7 that hold: without a timestamp the freshness bonus is 0.\<close>

lemma freshness_without_timestamp:
  "published_parsed entry = None \<Longrightarrow> updated_parsed entry = None \<Longrightarrow> freshness env entry = 0"
  by (simp add: freshness_def)

lemma freshness_mktime_raises:
  "published_parsed entry = Some t \<Longrightarrow> t \<noteq> [] \<Longrightarrow> mktime env t = Inl e \<Longrightarrow>
   freshness env entry = 0"
  by (simp add: freshness_def)

text \<open>Without a scraped page the function returns the rounded freshness and jitter.\<close>

lemma estimate_popularity_without_page:
  "estimate_popularity env entry None source
     = Inr (round_2 env (to_double env (to_double env (freshness env entry) + jitter env)), 0)"
  by (simp add: estimate_popularity_def comment_signal_def)

text \<open>A comment text without a digit leaves the count at 0 and the score as it was.\<close>

lemma comment_signal_no_digits:
  "filter str_isdigit txt = [] \<Longrightarrow> popularity_selector source = Some sel \<Longrightarrow>
   select_one pg sel = Some txt \<Longrightarrow> comment_signal env (Some pg) source score = Inr (score, 0)"
  by (simp add: comment_signal_def py_int_def py_strip_def)

text \<open>
  So does a comment text with a superscript digit: \<^verbatim>\<open>str.isdigit\<close> keeps it and \<^verbatim>\<open>int\<close>
  rejects the string.
\<close>

lemma comment_signal_superscript:
  "popularity_selector source = Some ''.c'' \<Longrightarrow>
   select_one pg ''.c'' = Some [CHR ''5'', char_of (178::nat)] \<Longrightarrow>
   comment_signal env (Some pg) source score = Inr (score, 0)"
  by (simp add: comment_signal_def py_int_def py_strip_def str_isdigit_def is_digit_def
      is_space_def of_char_eq_iff [where ?'a = nat, symmetric])

text \<open>
  Claim C7, on the code: the scoring function raises. The page carries
  \<^verbatim>\<open>data-shares="1000...0"\<close> (401 digits): \<^verbatim>\<open>int\<close> accepts it, and the product with
  \<open>0.5\<close> raises \<^verbatim>\<open>OverflowError\<close>, which the \<^verbatim>\<open>except (ValueError, TypeError)\<close> around it
  does not catch.
\<close>

theorem estimate_popularity_overflow:
  "estimate_popularity example_score_env example_entry (Some example_page) example_source
     = Inl OverflowError"
proof -
  have c: "comment_signal example_score_env (Some example_page) example_source 0 = Inr (0, 0)"
    by (simp add: comment_signal_def example_source_def)
  have f: "freshness example_score_env example_entry = 0"
    by (simp add: freshness_def example_entry_def)
  have d: "to_double example_score_env 0 = 0"
    by (simp add: example_score_env_def)
  have a: "find_attr example_page ''data-shares'' = Some huge_digits"
    by (simp add: example_page_def)
  have e: "engagement example_score_env example_page
             [''data-shares'', ''data-reactions'', ''data-likes''] 0
             = Inl OverflowError"
    by (simp only: engagement.simps a option.case py_int_huge sum.case float_of_int_huge)
  show ?thesis
    by (simp add: estimate_popularity_def f d c e del: engagement.simps)
qed

section \<open>Properties of the article listing\<close>

lemma py_int_minus_one: "py_int ''-1'' = Inr (- 1)"
  by (simp add: py_int_def py_strip_def is_space_def is_digit_def digits_value_def
      max_str_digits_def)

text \<open>The limit of the answer is at most 100, and 20 when the parameter is not given.\<close>

lemma get_articles_limit:
  "get_articles pub_file args = Inr r \<Longrightarrow>
   resp_limit r \<le> 100 \<and> (arg_limit args = None \<longrightarrow> resp_limit r = 20)"
  by (auto simp: get_articles_def Let_def int_arg_def split: sum.splits option.splits)

text \<open>
  Claim C9, on the code: the request with \<^verbatim>\<open>limit=-1\<close> on a store of 150 articles is
  answered with the slice \<^verbatim>\<open>articles[0:-1]\<close>, that is, with 149 articles.
\<close>

theorem get_articles_negative_limit:
  "get_articles (Some (example_store 150)) negative_limit_query
     = Inr \<lparr>resp_total = 150, resp_limit = - 1, resp_offset = 0,
            resp_articles = example_store 149\<rparr> \<and>
   length (example_store 149) = 149"
proof -
  have "py_slice (example_store 150) 0 (0 + min (- 1) 100) = example_store 149"
    by (simp add: py_slice_def slice_index_def length_example_store take_example_store)
  then show ?thesis
    by (simp add: get_articles_def negative_limit_query_def filter_by_def int_arg_def
        py_int_minus_one load_existing_def length_example_store)
qed

end
